theory Spec2Isabelle
  imports Complex_Main "HOL-Library.Sublist" "HOL-Library.Word"
begin

section \<open>The notebook \<open>[3]Deterministic_tractography.ipynb\<close>\<close>

text \<open>
  The repository is one Jupyter notebook. Its code cells call the diffusion-imaging
  library \<open>dipy\<close>; the library itself is not part of the repository. The model below
  therefore takes the library as a parameter \<open>L\<close>: a record with one field for each
  library function the notebook calls. Every library function may raise, so every field
  returns \<open>exn + result\<close>. Objects the notebook only passes on (file names, volumes,
  gradient tables, models, peaks, seeds, streamlines, scenes, actors) have the opaque
  type \<open>'o\<close>. The label volume is the one array whose elements the notebook itself
  compares, so it is an array of integers, and the two masks the notebook builds from it
  are arrays of booleans.

  A run executes the code cells from top to bottom and stops at the first exception.

  The package \<open>fury\<close>, which \<open>dipy.viz\<close> draws with, is optional: \<open>has_fury L\<close> tells
  whether it is installed, and that is the value \<open>dipy.viz\<close> gives its name \<open>has_fury\<close>.
  \<open>dipy.viz\<close> binds its names \<open>window\<close>, \<open>actor\<close> and \<open>colormap\<close> only when \<open>fury\<close> is
  installed, so a statement that imports one of them raises \<open>ImportError\<close> without
  \<open>fury\<close>. The two statements \<open>from dipy.viz import ...\<close> of the notebook are therefore
  steps of a run, recorded like the calls. The other \<open>import\<close> statements name modules
  and functions that every installation of the library has; they bind the names of \<open>L\<close>
  and are not steps of their own.

  What the model takes from the library's documentation, since its code is not here:
  a library function does not change the objects it is given (but for \<open>scene.add\<close>,
  which the model has return the changed scene); \<open>window.record\<close> and \<open>save_trk\<close>
  write the file they are told to write and no other; a shell escape writes none of the
  notebook's files.
\<close>

subsection \<open>Values\<close>

datatype exn = Exn string

text \<open>A numpy array: its shape and its elements in row-major order.\<close>

record 'a ndarray =
  shape :: "nat list"
  flat :: "'a list"

text \<open>\<open>labels == c\<close>: the element-wise comparison of an array with a scalar.\<close>

definition np_eq :: "int ndarray \<Rightarrow> int \<Rightarrow> bool ndarray" where
  "np_eq a c = \<lparr>shape = shape a, flat = map (\<lambda>x. x = c) (flat a)\<rparr>"

text \<open>
  \<open>a | b\<close>: the element-wise disjunction of two boolean arrays. The notebook applies it
  to two comparisons of the same array, so both operands always have the same shape and
  numpy's broadcasting of unequal shapes never comes into play.
\<close>

definition np_or :: "bool ndarray \<Rightarrow> bool ndarray \<Rightarrow> bool ndarray" where
  "np_or a b = \<lparr>shape = shape a, flat = map2 (\<or>) (flat a) (flat b)\<rparr>"

text \<open>The members of the library's \<open>Space\<close> enumeration; the notebook names \<open>Space.RASMM\<close>.\<close>

datatype space = RASMM | VOXMM | VOX

type_synonym bytes = "8 word list"

subsection \<open>The library\<close>

text \<open>
  One field for each name the notebook imports and uses. \<open>getattr\<close> reads a data
  attribute of a library object (\<open>dti_peaks.peak_dirs\<close>, \<open>dti_peaks.peak_values\<close>,
  \<open>dti_fit.fa\<close>), \<open>unpack\<close> iterates a library object for a tuple assignment, and
  \<open>fit\<close> is the method \<open>dti_model.fit\<close>. \<open>scene_add\<close> is the method \<open>scene.add\<close>,
  which changes the scene: it returns the changed scene. \<open>window_record\<close> and
  \<open>save_trk\<close> return the bytes they write to the path they are given.
\<close>

record 'o dipy =
  get_fnames :: "string \<Rightarrow> exn + 'o"
  unpack :: "'o \<Rightarrow> exn + 'o list"
  load_nifti :: "'o \<Rightarrow> bool \<Rightarrow> exn + 'o"
  read_bvals_bvecs :: "'o \<Rightarrow> 'o \<Rightarrow> exn + 'o"
  gradient_table :: "'o \<Rightarrow> 'o \<Rightarrow> exn + 'o"
  median_otsu :: "'o \<Rightarrow> int list \<Rightarrow> int \<Rightarrow> int \<Rightarrow> exn + 'o"
  load_nifti_data :: "'o \<Rightarrow> exn + int ndarray"
  TensorModel :: "'o \<Rightarrow> exn + 'o"
  default_sphere :: "'o"
  peaks_from_model :: "'o \<Rightarrow> 'o \<Rightarrow> 'o \<Rightarrow> real \<Rightarrow> int \<Rightarrow> bool ndarray \<Rightarrow> exn + 'o"
  has_fury :: bool
  window_Scene :: "exn + 'o"
  getattr :: "'o \<Rightarrow> string \<Rightarrow> exn + 'o"
  actor_peak_slicer :: "'o \<Rightarrow> 'o \<Rightarrow> 'o option \<Rightarrow> exn + 'o"
  scene_add :: "'o \<Rightarrow> 'o \<Rightarrow> exn + 'o"
  window_record :: "'o \<Rightarrow> string \<Rightarrow> int \<times> int \<Rightarrow> exn + bytes"
  window_show :: "'o \<Rightarrow> (int \<times> int) option \<Rightarrow> exn + unit"
  seeds_from_mask :: "bool ndarray \<Rightarrow> 'o \<Rightarrow> int list \<Rightarrow> exn + 'o"
  fit :: "'o \<Rightarrow> 'o \<Rightarrow> exn + 'o"
  ThresholdStoppingCriterion :: "'o \<Rightarrow> real \<Rightarrow> exn + 'o"
  LocalTracking :: "'o \<Rightarrow> 'o \<Rightarrow> 'o \<Rightarrow> 'o \<Rightarrow> real \<Rightarrow> exn + 'o"
  Streamlines :: "'o \<Rightarrow> exn + 'o"
  colormap_line_colors :: "'o \<Rightarrow> exn + 'o"
  actor_line :: "'o \<Rightarrow> 'o \<Rightarrow> exn + 'o"
  StatefulTractogram :: "'o \<Rightarrow> 'o \<Rightarrow> space \<Rightarrow> exn + 'o"
  save_trk :: "'o \<Rightarrow> string \<Rightarrow> 'o \<Rightarrow> exn + bytes"

subsection \<open>What a run does: the trace and the files written\<close>

text \<open>
  An event is one operation the notebook performs, with the arguments the notebook
  passes: a library call, an attribute read, a tuple assignment, an import from
  \<open>dipy.viz\<close> (the module and the names imported), or a shell escape (\<open>!cmd\<close>, which
  IPython runs as a child process and waits for).
\<close>

datatype 'o event =
    E_get_fnames string
  | E_unpack nat 'o
  | E_load_nifti 'o bool
  | E_read_bvals_bvecs 'o 'o
  | E_gradient_table 'o 'o
  | E_median_otsu 'o "int list" int int
  | E_load_nifti_data 'o
  | E_TensorModel 'o
  | E_peaks_from_model 'o 'o 'o real int "bool ndarray"
  | E_import string "string list"
  | E_window_Scene
  | E_getattr 'o string
  | E_actor_peak_slicer 'o 'o "'o option"
  | E_scene_add 'o 'o
  | E_window_record 'o string "int \<times> int"
  | E_window_show 'o "(int \<times> int) option"
  | E_seeds_from_mask "bool ndarray" 'o "int list"
  | E_fit 'o 'o
  | E_ThresholdStoppingCriterion 'o real
  | E_LocalTracking 'o 'o 'o 'o real
  | E_Streamlines 'o
  | E_colormap_line_colors 'o
  | E_actor_line 'o 'o
  | E_StatefulTractogram 'o 'o space
  | E_save_trk 'o string 'o
  | E_shell string

fun call_name :: "'o event \<Rightarrow> string" where
  "call_name (E_get_fnames _) = ''get_fnames''"
| "call_name (E_unpack _ _) = ''unpack''"
| "call_name (E_load_nifti _ _) = ''load_nifti''"
| "call_name (E_read_bvals_bvecs _ _) = ''read_bvals_bvecs''"
| "call_name (E_gradient_table _ _) = ''gradient_table''"
| "call_name (E_median_otsu _ _ _ _) = ''median_otsu''"
| "call_name (E_load_nifti_data _) = ''load_nifti_data''"
| "call_name (E_TensorModel _) = ''TensorModel''"
| "call_name (E_peaks_from_model _ _ _ _ _ _) = ''peaks_from_model''"
| "call_name (E_import m _) = ''import '' @ m"
| "call_name E_window_Scene = ''window.Scene''"
| "call_name (E_getattr _ a) = ''.'' @ a"
| "call_name (E_actor_peak_slicer _ _ _) = ''actor.peak_slicer''"
| "call_name (E_scene_add _ _) = ''scene.add''"
| "call_name (E_window_record _ _ _) = ''window.record''"
| "call_name (E_window_show _ _) = ''window.show''"
| "call_name (E_seeds_from_mask _ _ _) = ''seeds_from_mask''"
| "call_name (E_fit _ _) = ''dti_model.fit''"
| "call_name (E_ThresholdStoppingCriterion _ _) = ''ThresholdStoppingCriterion''"
| "call_name (E_LocalTracking _ _ _ _ _) = ''LocalTracking''"
| "call_name (E_Streamlines _) = ''Streamlines''"
| "call_name (E_colormap_line_colors _) = ''colormap.line_colors''"
| "call_name (E_actor_line _ _) = ''actor.line''"
| "call_name (E_StatefulTractogram _ _ _) = ''StatefulTractogram''"
| "call_name (E_save_trk _ _ _) = ''save_trk''"
| "call_name (E_shell c) = ''!'' @ c"

text \<open>
  How an operation ended: it raised, or it returned; \<open>Returned\<close> lists the library
  objects among what was returned.
\<close>

datatype 'o outcome = Raised exn | Returned "'o list"

text \<open>
  The state a run threads through: the trace of the events so far, each with its
  outcome, and the files written so far, in order.
\<close>

record 'o world =
  trace :: "('o event \<times> 'o outcome) list"
  written :: "(string \<times> bytes) list"

type_synonym ('o, 'a) nb = "'o world \<Rightarrow> (exn + 'a) \<times> 'o world"

definition nb_return :: "'a \<Rightarrow> ('o, 'a) nb" where
  "nb_return x w = (Inr x, w)"

text \<open>Sequencing: an exception of the first statement ends the run; nothing catches it.\<close>

definition nb_bind :: "('o, 'a) nb \<Rightarrow> ('a \<Rightarrow> ('o, 'b) nb) \<Rightarrow> ('o, 'b) nb" where
  "nb_bind m f w = (case m w of (Inl e, w') \<Rightarrow> (Inl e, w') | (Inr x, w') \<Rightarrow> f x w')"

definition outcome_of :: "('a \<Rightarrow> 'o list) \<Rightarrow> exn + 'a \<Rightarrow> 'o outcome" where
  "outcome_of objs r = (case r of Inl e \<Rightarrow> Raised e | Inr x \<Rightarrow> Returned (objs x))"

text \<open>
  An operation: its result is the library's, and the trace gains the event with its
  outcome. \<open>objs\<close> picks the library objects out of the result.
\<close>

definition call :: "'o event \<Rightarrow> ('a \<Rightarrow> 'o list) \<Rightarrow> exn + 'a \<Rightarrow> ('o, 'a) nb" where
  "call ev objs r w = (r, w\<lparr>trace := trace w @ [(ev, outcome_of objs r)]\<rparr>)"

text \<open>
  A call that writes a file: the file is there once the call has returned. A call that
  raises is taken to have written nothing; no property below depends on that.
\<close>

definition call_writing :: "'o event \<Rightarrow> string \<Rightarrow> exn + bytes \<Rightarrow> ('o, unit) nb" where
  "call_writing ev path r w =
     (case r of
        Inl e \<Rightarrow> (Inl e, w\<lparr>trace := trace w @ [(ev, Raised e)]\<rparr>)
      | Inr b \<Rightarrow> (Inr (), w\<lparr>trace := trace w @ [(ev, Returned [])],
                            written := written w @ [(path, b)]\<rparr>))"

definition obj1 :: "'o \<Rightarrow> 'o list" where
  "obj1 x = [x]"

definition obj0 :: "'a \<Rightarrow> 'o list" where
  "obj0 x = []"

text \<open>
  Tuple assignment \<open>a, b = x\<close> and \<open>a, b, c = x\<close>: Python iterates \<open>x\<close> and raises
  \<open>ValueError\<close> when the number of items is not the number of targets.
\<close>

definition unpack2 :: "'o dipy \<Rightarrow> 'o \<Rightarrow> exn + 'o \<times> 'o" where
  "unpack2 L x =
     (case unpack L x of
        Inl e \<Rightarrow> Inl e
      | Inr xs \<Rightarrow> (case xs of [a, b] \<Rightarrow> Inr (a, b) | _ \<Rightarrow> Inl (Exn ''ValueError'')))"

definition unpack3 :: "'o dipy \<Rightarrow> 'o \<Rightarrow> exn + 'o \<times> 'o \<times> 'o" where
  "unpack3 L x =
     (case unpack L x of
        Inl e \<Rightarrow> Inl e
      | Inr xs \<Rightarrow> (case xs of [a, b, c] \<Rightarrow> Inr (a, b, c) | _ \<Rightarrow> Inl (Exn ''ValueError'')))"

text \<open>
  \<^verbatim>\<open>from dipy.viz import\<close> of the given names: without \<open>fury\<close> only \<open>has_fury\<close> itself
  is there to import.
\<close>

definition import_viz :: "'o dipy \<Rightarrow> string list \<Rightarrow> exn + unit" where
  "import_viz L names =
     (if has_fury L \<or> set names \<subseteq> {''has_fury''} then Inr ()
      else Inl (Exn ''ImportError''))"

subsection \<open>The operations, each recorded in the trace\<close>

definition do_get_fnames :: "'o dipy \<Rightarrow> string \<Rightarrow> ('o, 'o) nb" where
  "do_get_fnames L n = call (E_get_fnames n) obj1 (get_fnames L n)"

definition do_unpack2 :: "'o dipy \<Rightarrow> 'o \<Rightarrow> ('o, 'o \<times> 'o) nb" where
  "do_unpack2 L x = call (E_unpack 2 x) (\<lambda>(a, b). [a, b]) (unpack2 L x)"

definition do_unpack3 :: "'o dipy \<Rightarrow> 'o \<Rightarrow> ('o, 'o \<times> 'o \<times> 'o) nb" where
  "do_unpack3 L x = call (E_unpack 3 x) (\<lambda>(a, b, c). [a, b, c]) (unpack3 L x)"

definition do_load_nifti :: "'o dipy \<Rightarrow> 'o \<Rightarrow> bool \<Rightarrow> ('o, 'o) nb" where
  "do_load_nifti L f ri = call (E_load_nifti f ri) obj1 (load_nifti L f ri)"

definition do_read_bvals_bvecs :: "'o dipy \<Rightarrow> 'o \<Rightarrow> 'o \<Rightarrow> ('o, 'o) nb" where
  "do_read_bvals_bvecs L f g = call (E_read_bvals_bvecs f g) obj1 (read_bvals_bvecs L f g)"

definition do_gradient_table :: "'o dipy \<Rightarrow> 'o \<Rightarrow> 'o \<Rightarrow> ('o, 'o) nb" where
  "do_gradient_table L a b = call (E_gradient_table a b) obj1 (gradient_table L a b)"

definition do_median_otsu :: "'o dipy \<Rightarrow> 'o \<Rightarrow> int list \<Rightarrow> int \<Rightarrow> int \<Rightarrow> ('o, 'o) nb" where
  "do_median_otsu L d vol_idx numpass dilate =
     call (E_median_otsu d vol_idx numpass dilate) obj1 (median_otsu L d vol_idx numpass dilate)"

definition do_load_nifti_data :: "'o dipy \<Rightarrow> 'o \<Rightarrow> ('o, int ndarray) nb" where
  "do_load_nifti_data L f = call (E_load_nifti_data f) obj0 (load_nifti_data L f)"

definition do_TensorModel :: "'o dipy \<Rightarrow> 'o \<Rightarrow> ('o, 'o) nb" where
  "do_TensorModel L g = call (E_TensorModel g) obj1 (TensorModel L g)"

definition do_peaks_from_model ::
  "'o dipy \<Rightarrow> 'o \<Rightarrow> 'o \<Rightarrow> 'o \<Rightarrow> real \<Rightarrow> int \<Rightarrow> bool ndarray \<Rightarrow> ('o, 'o) nb" where
  "do_peaks_from_model L m d s rpt msa msk =
     call (E_peaks_from_model m d s rpt msa msk) obj1 (peaks_from_model L m d s rpt msa msk)"

definition do_import_viz :: "'o dipy \<Rightarrow> string list \<Rightarrow> ('o, unit) nb" where
  "do_import_viz L names = call (E_import ''dipy.viz'' names) obj0 (import_viz L names)"

definition do_window_Scene :: "'o dipy \<Rightarrow> ('o, 'o) nb" where
  "do_window_Scene L = call E_window_Scene obj1 (window_Scene L)"

definition do_getattr :: "'o dipy \<Rightarrow> 'o \<Rightarrow> string \<Rightarrow> ('o, 'o) nb" where
  "do_getattr L x a = call (E_getattr x a) obj1 (getattr L x a)"

definition do_actor_peak_slicer :: "'o dipy \<Rightarrow> 'o \<Rightarrow> 'o \<Rightarrow> 'o option \<Rightarrow> ('o, 'o) nb" where
  "do_actor_peak_slicer L pd pv colors =
     call (E_actor_peak_slicer pd pv colors) obj1 (actor_peak_slicer L pd pv colors)"

definition do_scene_add :: "'o dipy \<Rightarrow> 'o \<Rightarrow> 'o \<Rightarrow> ('o, 'o) nb" where
  "do_scene_add L sc a = call (E_scene_add sc a) obj1 (scene_add L sc a)"

definition do_window_record :: "'o dipy \<Rightarrow> 'o \<Rightarrow> string \<Rightarrow> int \<times> int \<Rightarrow> ('o, unit) nb" where
  "do_window_record L sc out_path sz =
     call_writing (E_window_record sc out_path sz) out_path (window_record L sc out_path sz)"

definition do_window_show :: "'o dipy \<Rightarrow> 'o \<Rightarrow> (int \<times> int) option \<Rightarrow> ('o, unit) nb" where
  "do_window_show L sc sz = call (E_window_show sc sz) obj0 (window_show L sc sz)"

definition do_seeds_from_mask :: "'o dipy \<Rightarrow> bool ndarray \<Rightarrow> 'o \<Rightarrow> int list \<Rightarrow> ('o, 'o) nb" where
  "do_seeds_from_mask L m a density =
     call (E_seeds_from_mask m a density) obj1 (seeds_from_mask L m a density)"

definition do_fit :: "'o dipy \<Rightarrow> 'o \<Rightarrow> 'o \<Rightarrow> ('o, 'o) nb" where
  "do_fit L m d = call (E_fit m d) obj1 (fit L m d)"

definition do_ThresholdStoppingCriterion :: "'o dipy \<Rightarrow> 'o \<Rightarrow> real \<Rightarrow> ('o, 'o) nb" where
  "do_ThresholdStoppingCriterion L fa t =
     call (E_ThresholdStoppingCriterion fa t) obj1 (ThresholdStoppingCriterion L fa t)"

definition do_LocalTracking :: "'o dipy \<Rightarrow> 'o \<Rightarrow> 'o \<Rightarrow> 'o \<Rightarrow> 'o \<Rightarrow> real \<Rightarrow> ('o, 'o) nb" where
  "do_LocalTracking L p sc s a step =
     call (E_LocalTracking p sc s a step) obj1 (LocalTracking L p sc s a step)"

definition do_Streamlines :: "'o dipy \<Rightarrow> 'o \<Rightarrow> ('o, 'o) nb" where
  "do_Streamlines L g = call (E_Streamlines g) obj1 (Streamlines L g)"

definition do_colormap_line_colors :: "'o dipy \<Rightarrow> 'o \<Rightarrow> ('o, 'o) nb" where
  "do_colormap_line_colors L s = call (E_colormap_line_colors s) obj1 (colormap_line_colors L s)"

definition do_actor_line :: "'o dipy \<Rightarrow> 'o \<Rightarrow> 'o \<Rightarrow> ('o, 'o) nb" where
  "do_actor_line L s c = call (E_actor_line s c) obj1 (actor_line L s c)"

definition do_StatefulTractogram :: "'o dipy \<Rightarrow> 'o \<Rightarrow> 'o \<Rightarrow> space \<Rightarrow> ('o, 'o) nb" where
  "do_StatefulTractogram L s img sp =
     call (E_StatefulTractogram s img sp) obj1 (StatefulTractogram L s img sp)"

definition do_save_trk :: "'o dipy \<Rightarrow> 'o \<Rightarrow> string \<Rightarrow> 'o \<Rightarrow> ('o, unit) nb" where
  "do_save_trk L sft filename bbox =
     call_writing (E_save_trk sft filename bbox) filename (save_trk L sft filename bbox)"

text \<open>A shell escape raises no Python exception, whatever the command does.\<close>

definition shell :: "string \<Rightarrow> ('o, unit) nb" where
  "shell cmd = call (E_shell cmd) obj0 (Inr ())"

text \<open>\<open>range(a, b)\<close>.\<close>

definition py_range :: "int \<Rightarrow> int \<Rightarrow> int list" where
  "py_range a b = [a..b - 1]"

subsection \<open>The code cells, in the order of the notebook\<close>

text \<open>
  \<^verbatim>\<open>hardi_fname, hardi_bval_fname, hardi_bvec_fname = get_fnames('stanford_hardi')\<close>
  \<^verbatim>\<open>data, affine, hardi_img = load_nifti(hardi_fname, return_img=True)\<close>
  \<^verbatim>\<open>bvals, bvecs = read_bvals_bvecs(hardi_bval_fname, hardi_bvec_fname)\<close>
  \<^verbatim>\<open>gtab = gradient_table(bvals, bvecs)\<close>
  The cell returns the variables later cells read: \<open>data\<close>, \<open>affine\<close>, \<open>hardi_img\<close>
  and \<open>gtab\<close>.
\<close>

definition cell_load :: "'o dipy \<Rightarrow> ('o, 'o \<times> 'o \<times> 'o \<times> 'o) nb" where
  "cell_load L =
     nb_bind (do_get_fnames L ''stanford_hardi'') (\<lambda>fnames.
     nb_bind (do_unpack3 L fnames) (\<lambda>(hardi_fname, hardi_bval_fname, hardi_bvec_fname).
     nb_bind (do_load_nifti L hardi_fname True) (\<lambda>loaded.
     nb_bind (do_unpack3 L loaded) (\<lambda>(data, affine, hardi_img).
     nb_bind (do_read_bvals_bvecs L hardi_bval_fname hardi_bvec_fname) (\<lambda>bb.
     nb_bind (do_unpack2 L bb) (\<lambda>(bvals, bvecs).
     nb_bind (do_gradient_table L bvals bvecs) (\<lambda>gtab.
     nb_return (data, affine, hardi_img, gtab))))))))"

text \<open>
  \<^verbatim>\<open>maskdata, mask = median_otsu(data, vol_idx=range(0, 9), numpass=1, dilate=5)\<close>
  The second item (the variable \<open>mask\<close>) is never read; \<open>maskdata\<close> is.
\<close>

definition cell_mask :: "'o dipy \<Rightarrow> 'o \<Rightarrow> ('o, 'o) nb" where
  "cell_mask L data =
     nb_bind (do_median_otsu L data (py_range 0 9) 1 5) (\<lambda>res.
     nb_bind (do_unpack2 L res) (\<lambda>(maskdata, brain_mask).
     nb_return maskdata))"

text \<open>
  \<^verbatim>\<open>label_fname = get_fnames('stanford_labels')\<close>
  \<^verbatim>\<open>labels = load_nifti_data(label_fname)\<close>
  \<^verbatim>\<open>white_matter = (labels == 1) | (labels == 2)\<close>
\<close>

definition cell_labels :: "'o dipy \<Rightarrow> ('o, int ndarray \<times> bool ndarray) nb" where
  "cell_labels L =
     nb_bind (do_get_fnames L ''stanford_labels'') (\<lambda>label_fname.
     nb_bind (do_load_nifti_data L label_fname) (\<lambda>labels.
     nb_return (labels, np_or (np_eq labels 1) (np_eq labels 2))))"

text \<open>\<^verbatim>\<open>dti_model = TensorModel(gtab)\<close>\<close>

definition cell_model :: "'o dipy \<Rightarrow> 'o \<Rightarrow> ('o, 'o) nb" where
  "cell_model L gtab = do_TensorModel L gtab"

text \<open>
  \<^verbatim>\<open>dti_peaks = peaks_from_model(dti_model, maskdata, default_sphere,\<close>
  \<^verbatim>\<open>                             relative_peak_threshold=.8,\<close>
  \<^verbatim>\<open>                             min_separation_angle=45,\<close>
  \<^verbatim>\<open>                             mask=white_matter)\<close>
\<close>

definition cell_peaks :: "'o dipy \<Rightarrow> 'o \<Rightarrow> 'o \<Rightarrow> bool ndarray \<Rightarrow> ('o, 'o) nb" where
  "cell_peaks L dti_model maskdata white_matter =
     do_peaks_from_model L dti_model maskdata (default_sphere L) 0.8 45 white_matter"

text \<open>
  \<^verbatim>\<open>from dipy.viz import window, actor, has_fury\<close>
  \<^verbatim>\<open>if has_fury:\<close>
  \<^verbatim>\<open>    scene = window.Scene()\<close>
  \<^verbatim>\<open>    scene.add(actor.peak_slicer(dti_peaks.peak_dirs,\<close>
  \<^verbatim>\<open>                                dti_peaks.peak_values,\<close>
  \<^verbatim>\<open>                                colors=None))\<close>
  \<^verbatim>\<open>    window.record(scene, out_path='dti_direction_field.png', size=(900, 900))\<close>
  \<^verbatim>\<open>    window.show(scene, size=(800, 800))\<close>
\<close>

definition cell_show_peaks :: "'o dipy \<Rightarrow> 'o \<Rightarrow> ('o, unit) nb" where
  "cell_show_peaks L dti_peaks =
     nb_bind (do_import_viz L [''window'', ''actor'', ''has_fury'']) (\<lambda>_.
     if has_fury L then
       nb_bind (do_window_Scene L) (\<lambda>scene.
       nb_bind (do_getattr L dti_peaks ''peak_dirs'') (\<lambda>peak_dirs.
       nb_bind (do_getattr L dti_peaks ''peak_values'') (\<lambda>peak_values.
       nb_bind (do_actor_peak_slicer L peak_dirs peak_values None) (\<lambda>slicer.
       nb_bind (do_scene_add L scene slicer) (\<lambda>scene.
       nb_bind (do_window_record L scene ''dti_direction_field.png'' (900, 900)) (\<lambda>_.
       do_window_show L scene (Some (800, 800))))))))
     else nb_return ())"

text \<open>
  \<^verbatim>\<open>seed_mask = (labels == 2)\<close>
  \<^verbatim>\<open>seeds = utils.seeds_from_mask(seed_mask, affine, density=[3, 3, 3])\<close>
\<close>

definition cell_seeds :: "'o dipy \<Rightarrow> int ndarray \<Rightarrow> 'o \<Rightarrow> ('o, 'o) nb" where
  "cell_seeds L labels affine =
     do_seeds_from_mask L (np_eq labels 2) affine [3, 3, 3]"

text \<open>
  \<^verbatim>\<open>dti_fit = dti_model.fit(maskdata)\<close>
  \<^verbatim>\<open>fa = dti_fit.fa\<close>
\<close>

definition cell_fa :: "'o dipy \<Rightarrow> 'o \<Rightarrow> 'o \<Rightarrow> ('o, 'o) nb" where
  "cell_fa L dti_model maskdata =
     nb_bind (do_fit L dti_model maskdata) (\<lambda>dti_fit.
     do_getattr L dti_fit ''fa'')"

text \<open>\<^verbatim>\<open>stopping_criterion = ThresholdStoppingCriterion(fa, .2)\<close>\<close>

definition cell_stopping :: "'o dipy \<Rightarrow> 'o \<Rightarrow> ('o, 'o) nb" where
  "cell_stopping L fa = do_ThresholdStoppingCriterion L fa 0.2"

text \<open>
  \<^verbatim>\<open>streamlines_generator = LocalTracking(dti_peaks, stopping_criterion, seeds,\<close>
  \<^verbatim>\<open>                                      affine=affine, step_size=.5)\<close>
\<close>

definition cell_tracking :: "'o dipy \<Rightarrow> 'o \<Rightarrow> 'o \<Rightarrow> 'o \<Rightarrow> 'o \<Rightarrow> ('o, 'o) nb" where
  "cell_tracking L dti_peaks stopping_criterion seeds affine =
     do_LocalTracking L dti_peaks stopping_criterion seeds affine 0.5"

text \<open>\<^verbatim>\<open>streamlines = Streamlines(streamlines_generator)\<close>\<close>

definition cell_streamlines :: "'o dipy \<Rightarrow> 'o \<Rightarrow> ('o, 'o) nb" where
  "cell_streamlines L streamlines_generator = do_Streamlines L streamlines_generator"

text \<open>
  \<^verbatim>\<open>from dipy.viz import colormap\<close>
  \<^verbatim>\<open>if has_fury:\<close>
  \<^verbatim>\<open>    color = colormap.line_colors(streamlines)\<close>
  \<^verbatim>\<open>    streamlines_actor = actor.line(streamlines,\<close>
  \<^verbatim>\<open>                                   colormap.line_colors(streamlines))\<close>
  \<^verbatim>\<open>    scene = window.Scene()\<close>
  \<^verbatim>\<open>    scene.add(streamlines_actor)\<close>
  \<^verbatim>\<open>    window.record(scene, out_path='dti_tractogram.png', size=(800, 800))\<close>
  \<^verbatim>\<open>    window.show(scene)\<close>
\<close>

definition cell_show_streamlines :: "'o dipy \<Rightarrow> 'o \<Rightarrow> ('o, unit) nb" where
  "cell_show_streamlines L streamlines =
     nb_bind (do_import_viz L [''colormap'']) (\<lambda>_.
     if has_fury L then
       nb_bind (do_colormap_line_colors L streamlines) (\<lambda>color.
       nb_bind (do_colormap_line_colors L streamlines) (\<lambda>colors.
       nb_bind (do_actor_line L streamlines colors) (\<lambda>streamlines_actor.
       nb_bind (do_window_Scene L) (\<lambda>scene.
       nb_bind (do_scene_add L scene streamlines_actor) (\<lambda>scene.
       nb_bind (do_window_record L scene ''dti_tractogram.png'' (800, 800)) (\<lambda>_.
       do_window_show L scene None))))))
     else nb_return ())"

text \<open>
  \<^verbatim>\<open>sft = StatefulTractogram(streamlines, hardi_img, Space.RASMM)\<close>
  \<^verbatim>\<open>save_trk(sft, "dti_CC_tractography_deterministic.trk", streamlines)\<close>
  The third positional argument of \<open>save_trk\<close> is \<open>streamlines\<close>.
\<close>

definition trk_name :: string where
  "trk_name = ''dti_CC_tractography_deterministic.trk''"

definition cell_save :: "'o dipy \<Rightarrow> 'o \<Rightarrow> 'o \<Rightarrow> ('o, unit) nb" where
  "cell_save L streamlines hardi_img =
     nb_bind (do_StatefulTractogram L streamlines hardi_img RASMM) (\<lambda>sft.
     do_save_trk L sft trk_name streamlines)"

text \<open>
  The cells after the save are shell escapes:
  \<^verbatim>\<open>!dir\<close>
  \<^verbatim>\<open>!dipy_horizon dti_CC*trk\<close>
  \<^verbatim>\<open>!dipy_horizon dti_CC*trk tensor_fa.nii.gz\<close>
  (a cell of comments only)
  \<^verbatim>\<open>!dipy_horizon dti_CC*trk tensor_md.nii.gz\<close>
  \<^verbatim>\<open>!dipy_horizon dti_CC*trk tensor_ad.nii.gz\<close>
  \<^verbatim>\<open>!dipy_horizon dti_CC*trk tensor_rd.nii.gz\<close>
  (an empty cell)
\<close>

definition shell_cmds :: "string list" where
  "shell_cmds =
     [''dir'',
      ''dipy_horizon dti_CC*trk'',
      ''dipy_horizon dti_CC*trk tensor_fa.nii.gz'',
      ''dipy_horizon dti_CC*trk tensor_md.nii.gz'',
      ''dipy_horizon dti_CC*trk tensor_ad.nii.gz'',
      ''dipy_horizon dti_CC*trk tensor_rd.nii.gz'']"

definition cells_shell :: "('o, unit) nb" where
  "cells_shell =
     nb_bind (shell ''dir'') (\<lambda>_.
     nb_bind (shell ''dipy_horizon dti_CC*trk'') (\<lambda>_.
     nb_bind (shell ''dipy_horizon dti_CC*trk tensor_fa.nii.gz'') (\<lambda>_.
     nb_bind (shell ''dipy_horizon dti_CC*trk tensor_md.nii.gz'') (\<lambda>_.
     nb_bind (shell ''dipy_horizon dti_CC*trk tensor_ad.nii.gz'') (\<lambda>_.
     shell ''dipy_horizon dti_CC*trk tensor_rd.nii.gz'')))))"

text \<open>
  The whole notebook, run from the first cell to the last. A complete run returns the
  value of the variable \<open>streamlines\<close>.
\<close>

definition notebook :: "'o dipy \<Rightarrow> ('o, 'o) nb" where
  "notebook L =
     nb_bind (cell_load L) (\<lambda>(data, affine, hardi_img, gtab).
     nb_bind (cell_mask L data) (\<lambda>maskdata.
     nb_bind (cell_labels L) (\<lambda>(labels, white_matter).
     nb_bind (cell_model L gtab) (\<lambda>dti_model.
     nb_bind (cell_peaks L dti_model maskdata white_matter) (\<lambda>dti_peaks.
     nb_bind (cell_show_peaks L dti_peaks) (\<lambda>_.
     nb_bind (cell_seeds L labels affine) (\<lambda>seeds.
     nb_bind (cell_fa L dti_model maskdata) (\<lambda>fa.
     nb_bind (cell_stopping L fa) (\<lambda>stopping_criterion.
     nb_bind (cell_tracking L dti_peaks stopping_criterion seeds affine) (\<lambda>streamlines_generator.
     nb_bind (cell_streamlines L streamlines_generator) (\<lambda>streamlines.
     nb_bind (cell_show_streamlines L streamlines) (\<lambda>_.
     nb_bind (cell_save L streamlines hardi_img) (\<lambda>_.
     nb_bind cells_shell (\<lambda>_.
     nb_return streamlines))))))))))))))"

text \<open>A run starts with an empty trace and no file written.\<close>

definition start :: "'o world" where
  "start = \<lparr>trace = [], written = []\<rparr>"

definition run :: "'o dipy \<Rightarrow> (exn + 'o) \<times> 'o world" where
  "run L = notebook L start"

section \<open>The vocabulary of the properties\<close>

subsection \<open>The order of the operations\<close>

definition calls :: "('o event \<times> 'o outcome) list \<Rightarrow> string list" where
  "calls es = map (\<lambda>x. call_name (fst x)) es"

definition completed :: "exn + 'a \<Rightarrow> bool" where
  "completed r = (case r of Inl _ \<Rightarrow> False | Inr _ \<Rightarrow> True)"

text \<open>
  The operations of each part of the notebook, under the notebook's own headings:
  loading the data set, masking it, loading the labels, ``1) Getting directions'',
  ``2) Defining the seeds'', ``3) Defining the tracking stopping criterion'',
  ``4) Propagating the streamlines'', saving, and the shell escapes; the two
  visualisation cells, each starting with its import from \<open>dipy.viz\<close>, come after the
  peaks and after the streamlines.
\<close>

definition load_calls :: "string list" where
  "load_calls = [''get_fnames'', ''unpack'', ''load_nifti'', ''unpack'',
                 ''read_bvals_bvecs'', ''unpack'', ''gradient_table'']"

definition mask_calls :: "string list" where
  "mask_calls = [''median_otsu'', ''unpack'']"

definition label_calls :: "string list" where
  "label_calls = [''get_fnames'', ''load_nifti_data'']"

definition direction_calls :: "string list" where
  "direction_calls = [''TensorModel'', ''peaks_from_model'']"

definition show_peaks_calls :: "string list" where
  "show_peaks_calls = [''import dipy.viz'', ''window.Scene'', ''.peak_dirs'', ''.peak_values'',
                       ''actor.peak_slicer'', ''scene.add'', ''window.record'', ''window.show'']"

definition seed_calls :: "string list" where
  "seed_calls = [''seeds_from_mask'']"

definition stopping_calls :: "string list" where
  "stopping_calls = [''dti_model.fit'', ''.fa'', ''ThresholdStoppingCriterion'']"

definition tracking_calls :: "string list" where
  "tracking_calls = [''LocalTracking'', ''Streamlines'']"

definition show_streamlines_calls :: "string list" where
  "show_streamlines_calls = [''import dipy.viz'', ''colormap.line_colors'',
                             ''colormap.line_colors'', ''actor.line'', ''window.Scene'',
                             ''scene.add'', ''window.record'', ''window.show'']"

definition save_calls :: "string list" where
  "save_calls = [''StatefulTractogram'', ''save_trk'']"

definition shell_calls :: "string list" where
  "shell_calls = map (\<lambda>c. ''!'' @ c) shell_cmds"

definition expected_calls :: "string list" where
  "expected_calls =
     load_calls @ mask_calls @ label_calls @ direction_calls
     @ show_peaks_calls
     @ seed_calls @ stopping_calls @ tracking_calls
     @ show_streamlines_calls
     @ save_calls @ shell_calls"

definition in_order ::
  "exn + 'a \<Rightarrow> ('o event \<times> 'o outcome) list \<Rightarrow> (string \<times> bytes) list \<Rightarrow> bool" where
  "in_order r es fs =
     (prefix (calls es) expected_calls \<and> (completed r \<longrightarrow> calls es = expected_calls))"

subsection \<open>What an operation consumes and what it produces\<close>

fun inputs :: "'o event \<Rightarrow> 'o list" where
  "inputs (E_get_fnames _) = []"
| "inputs (E_unpack _ x) = [x]"
| "inputs (E_load_nifti f _) = [f]"
| "inputs (E_read_bvals_bvecs f g) = [f, g]"
| "inputs (E_gradient_table a b) = [a, b]"
| "inputs (E_median_otsu d _ _ _) = [d]"
| "inputs (E_load_nifti_data f) = [f]"
| "inputs (E_TensorModel g) = [g]"
| "inputs (E_peaks_from_model m d s _ _ _) = [m, d, s]"
| "inputs (E_import _ _) = []"
| "inputs E_window_Scene = []"
| "inputs (E_getattr x _) = [x]"
| "inputs (E_actor_peak_slicer pd pv colors) = pd # pv # (case colors of None \<Rightarrow> [] | Some c \<Rightarrow> [c])"
| "inputs (E_scene_add sc a) = [sc, a]"
| "inputs (E_window_record sc _ _) = [sc]"
| "inputs (E_window_show sc _) = [sc]"
| "inputs (E_seeds_from_mask _ a _) = [a]"
| "inputs (E_fit m d) = [m, d]"
| "inputs (E_ThresholdStoppingCriterion fa _) = [fa]"
| "inputs (E_LocalTracking p sc s a _) = [p, sc, s, a]"
| "inputs (E_Streamlines g) = [g]"
| "inputs (E_colormap_line_colors s) = [s]"
| "inputs (E_actor_line s c) = [s, c]"
| "inputs (E_StatefulTractogram s img _) = [s, img]"
| "inputs (E_save_trk sft _ bbox) = [sft, bbox]"
| "inputs (E_shell _) = []"

fun outputs :: "'o outcome \<Rightarrow> 'o list" where
  "outputs (Raised _) = []"
| "outputs (Returned xs) = xs"

text \<open>
  \<open>flows known es\<close>: every library object an operation of \<open>es\<close> is given is one of
  \<open>known\<close> or one that an earlier operation of \<open>es\<close> returned.
\<close>

fun flows :: "'o list \<Rightarrow> ('o event \<times> 'o outcome) list \<Rightarrow> bool" where
  "flows known [] = True"
| "flows known (x # rest) =
     (set (inputs (fst x)) \<subseteq> set known \<and> flows (outputs (snd x) @ known) rest)"

definition no_transform ::
  "'o list \<Rightarrow> exn + 'a \<Rightarrow> ('o event \<times> 'o outcome) list \<Rightarrow> (string \<times> bytes) list \<Rightarrow> bool" where
  "no_transform known r es fs = flows known es"

subsection \<open>The literal parameters\<close>

fun fixed_params :: "'o event \<Rightarrow> bool" where
  "fixed_params (E_get_fnames n) = (n = ''stanford_hardi'' \<or> n = ''stanford_labels'')"
| "fixed_params (E_unpack n _) = (n = 2 \<or> n = 3)"
| "fixed_params (E_load_nifti _ return_img) = return_img"
| "fixed_params (E_median_otsu _ vol_idx numpass dilate) =
     (vol_idx = [0, 1, 2, 3, 4, 5, 6, 7, 8] \<and> numpass = 1 \<and> dilate = 5)"
| "fixed_params (E_peaks_from_model _ _ _ relative_peak_threshold min_separation_angle _) =
     (relative_peak_threshold = 0.8 \<and> min_separation_angle = 45)"
| "fixed_params (E_import m names) =
     (m = ''dipy.viz'' \<and> (names = [''window'', ''actor'', ''has_fury''] \<or> names = [''colormap'']))"
| "fixed_params (E_getattr _ a) = (a = ''peak_dirs'' \<or> a = ''peak_values'' \<or> a = ''fa'')"
| "fixed_params (E_actor_peak_slicer _ _ colors) = (colors = None)"
| "fixed_params (E_window_record _ out_path sz) =
     ((out_path = ''dti_direction_field.png'' \<and> sz = (900, 900))
      \<or> (out_path = ''dti_tractogram.png'' \<and> sz = (800, 800)))"
| "fixed_params (E_window_show _ sz) = (sz = Some (800, 800) \<or> sz = None)"
| "fixed_params (E_seeds_from_mask _ _ density) = (density = [3, 3, 3])"
| "fixed_params (E_ThresholdStoppingCriterion _ threshold) = (threshold = 0.2)"
| "fixed_params (E_LocalTracking _ _ _ _ step_size) = (step_size = 0.5)"
| "fixed_params (E_StatefulTractogram _ _ sp) = (sp = RASMM)"
| "fixed_params (E_save_trk _ filename _) = (filename = ''dti_CC_tractography_deterministic.trk'')"
| "fixed_params (E_shell c) = (c \<in> set shell_cmds)"
| "fixed_params _ = True"

definition literals ::
  "exn + 'a \<Rightarrow> ('o event \<times> 'o outcome) list \<Rightarrow> (string \<times> bytes) list \<Rightarrow> bool" where
  "literals r es fs =
     (es \<noteq> [] \<and> fst (hd es) = E_get_fnames ''stanford_hardi''
      \<and> (\<forall>x\<in>set es. fixed_params (fst x)))"

subsection \<open>Exceptions\<close>

definition failure :: "exn + 'a \<Rightarrow> exn option" where
  "failure r = (case r of Inl e \<Rightarrow> Some e | Inr _ \<Rightarrow> None)"

text \<open>
  \<open>propagates res es\<close>: no operation of \<open>es\<close> but the last raised; if the last raised,
  the run ended there with that exception (\<open>res = Some e\<close>); if none raised, the run
  completed (\<open>res = None\<close>).
\<close>

fun propagates :: "exn option \<Rightarrow> ('o event \<times> 'o outcome) list \<Rightarrow> bool" where
  "propagates res [] = (res = None)"
| "propagates res ((ev, Returned xs) # rest) = propagates res rest"
| "propagates res ((ev, Raised e) # rest) = (rest = [] \<and> res = Some e)"

definition unhandled ::
  "exn + 'a \<Rightarrow> ('o event \<times> 'o outcome) list \<Rightarrow> (string \<times> bytes) list \<Rightarrow> bool" where
  "unhandled r es fs =
     (propagates (failure r) es
      \<and> (\<forall>e. r = Inl e \<longrightarrow> call_name (fst (last es)) \<noteq> ''save_trk'' \<longrightarrow> trk_name \<notin> fst ` set fs))"

subsection \<open>The output file\<close>

text \<open>The operations of a trace that have one of the given names, in their order.\<close>

definition operations ::
  "string list \<Rightarrow> ('o event \<times> 'o outcome) list \<Rightarrow> ('o event \<times> 'o outcome) list" where
  "operations names es = [x \<leftarrow> es. call_name (fst x) \<in> set names]"

text \<open>The images the two visualisation cells record.\<close>

definition image_names :: "string list" where
  "image_names = [''dti_direction_field.png'', ''dti_tractogram.png'']"

definition saves_one ::
  "'o dipy \<Rightarrow> exn + 'o \<Rightarrow> ('o event \<times> 'o outcome) list \<Rightarrow> (string \<times> bytes) list \<Rightarrow> bool" where
  "saves_one L r es fs =
     (\<forall>s. r = Inr s \<longrightarrow>
        (\<exists>img sft content.
            operations [''StatefulTractogram'', ''save_trk''] es
              = [(E_StatefulTractogram s img RASMM, Returned [sft]),
                 (E_save_trk sft trk_name s, Returned [])]
          \<and> save_trk L sft trk_name s = Inr content
          \<and> map fst fs = image_names @ [trk_name]
          \<and> last fs = (trk_name, content))
      \<and> (\<exists>gen. operations [''Streamlines''] es = [(E_Streamlines gen, Returned [s])]))"

subsection \<open>The masks\<close>

definition seed_mask_ok ::
  "'o dipy \<Rightarrow> exn + 'a \<Rightarrow> ('o event \<times> 'o outcome) list \<Rightarrow> (string \<times> bytes) list \<Rightarrow> bool" where
  "seed_mask_ok L r es fs =
     (\<forall>x\<in>set es. \<forall>m a density. fst x = E_seeds_from_mask m a density \<longrightarrow>
        density = [3, 3, 3]
        \<and> (\<exists>f labels. operations [''load_nifti_data''] es = [(E_load_nifti_data f, Returned [])]
             \<and> load_nifti_data L f = Inr labels \<and> m = np_eq labels 2))"

definition peak_mask_ok ::
  "'o dipy \<Rightarrow> exn + 'a \<Rightarrow> ('o event \<times> 'o outcome) list \<Rightarrow> (string \<times> bytes) list \<Rightarrow> bool" where
  "peak_mask_ok L r es fs =
     (\<forall>x\<in>set es. \<forall>md d s rpt msa msk. fst x = E_peaks_from_model md d s rpt msa msk \<longrightarrow>
        (\<exists>f labels. operations [''load_nifti_data''] es = [(E_load_nifti_data f, Returned [])]
             \<and> load_nifti_data L f = Inr labels
             \<and> msk = np_or (np_eq labels 1) (np_eq labels 2)))"


subsection \<open>Shell escapes\<close>

fun is_shell :: "'o event \<Rightarrow> bool" where
  "is_shell (E_shell _) = True"
| "is_shell _ = False"

definition before_shell :: "('o event \<times> 'o outcome) list \<Rightarrow> ('o event \<times> 'o outcome) list" where
  "before_shell es = takeWhile (\<lambda>x. \<not> is_shell (fst x)) es"

definition from_shell :: "('o event \<times> 'o outcome) list \<Rightarrow> ('o event \<times> 'o outcome) list" where
  "from_shell es = dropWhile (\<lambda>x. \<not> is_shell (fst x)) es"

definition shells_last ::
  "exn + 'a \<Rightarrow> ('o event \<times> 'o outcome) list \<Rightarrow> (string \<times> bytes) list \<Rightarrow> bool" where
  "shells_last r es fs =
     (from_shell es = map (\<lambda>c. (E_shell c, Returned [])) (take (length (from_shell es)) shell_cmds)
      \<and> (completed r \<longrightarrow> length (from_shell es) = length shell_cmds)
      \<and> (from_shell es \<noteq> [] \<longrightarrow>
            before_shell es \<noteq> []
          \<and> call_name (fst (last (before_shell es))) = ''save_trk''
          \<and> snd (last (before_shell es)) = Returned []))"

subsection \<open>Without \<open>fury\<close>\<close>

text \<open>
  What a run without \<open>fury\<close> comes to: it does not complete, it writes no file, it
  defines no seeds, tracks nothing and saves nothing; it performs at most 14 operations,
  and the 14th, when the 13 before it have returned, is the first import from
  \<open>dipy.viz\<close>, which raises \<open>ImportError\<close> and ends the run.
\<close>

definition first_viz_import :: "'o event" where
  "first_viz_import = E_import ''dipy.viz'' [''window'', ''actor'', ''has_fury'']"

definition stops_at_import ::
  "exn + 'a \<Rightarrow> ('o event \<times> 'o outcome) list \<Rightarrow> (string \<times> bytes) list \<Rightarrow> bool" where
  "stops_at_import r es fs =
     (\<not> completed r \<and> fs = []
      \<and> operations [''seeds_from_mask'', ''LocalTracking'', ''Streamlines'', ''save_trk''] es = []
      \<and> length es \<le> 14
      \<and> (length es = 14 \<longrightarrow>
            r = Inl (Exn ''ImportError'')
          \<and> last es = (first_viz_import, Raised (Exn ''ImportError''))))"

section \<open>Example libraries\<close>

text \<open>
  A library whose objects are numbers, each call returning a number of its own; the label
  volume has four voxels, with the labels 0, 1, 2 and 2; the files it writes hold a few
  bytes. The package \<open>fury\<close> is installed.
\<close>

definition demo_labels :: "int ndarray" where
  "demo_labels = \<lparr>shape = [2, 2, 1], flat = [0, 1, 2, 2]\<rparr>"

definition png_bytes :: bytes where
  "png_bytes = [137, 80, 78, 71]"

definition trk_bytes :: bytes where
  "trk_bytes = [84, 82, 65, 67, 75]"

definition demo_fury :: "nat dipy" where
  "demo_fury =
     \<lparr> get_fnames = (\<lambda>n. if n = ''stanford_hardi'' then Inr 1
                          else if n = ''stanford_labels'' then Inr 2
                          else Inl (Exn ''unknown data set'')),
       unpack = (\<lambda>x. if x = 1 then Inr [3, 4, 5]
                      else if x = 6 then Inr [7, 8, 9]
                      else if x = 10 then Inr [11, 12]
                      else if x = 14 then Inr [15, 16]
                      else Inl (Exn ''TypeError'')),
       load_nifti = (\<lambda>f return_img. Inr 6),
       read_bvals_bvecs = (\<lambda>f g. Inr 10),
       gradient_table = (\<lambda>a b. Inr 13),
       median_otsu = (\<lambda>d vol_idx numpass dilate. Inr 14),
       load_nifti_data = (\<lambda>f. Inr demo_labels),
       TensorModel = (\<lambda>g. Inr 17),
       default_sphere = 18,
       peaks_from_model = (\<lambda>m d s rpt msa msk. Inr 19),
       has_fury = True,
       window_Scene = Inr 20,
       getattr = (\<lambda>x a. if a = ''peak_dirs'' then Inr 21
                          else if a = ''peak_values'' then Inr 22
                          else Inr 28),
       actor_peak_slicer = (\<lambda>pd pv colors. Inr 23),
       scene_add = (\<lambda>sc a. Inr 24),
       window_record = (\<lambda>sc out_path sz. Inr png_bytes),
       window_show = (\<lambda>sc sz. Inr ()),
       seeds_from_mask = (\<lambda>m a density. Inr 26),
       fit = (\<lambda>m d. Inr 27),
       ThresholdStoppingCriterion = (\<lambda>fa t. Inr 29),
       LocalTracking = (\<lambda>p sc s a step. Inr 30),
       Streamlines = (\<lambda>g. Inr 31),
       colormap_line_colors = (\<lambda>s. Inr 32),
       actor_line = (\<lambda>s c. Inr 33),
       StatefulTractogram = (\<lambda>s img sp. Inr 34),
       save_trk = (\<lambda>sft filename bbox. Inr trk_bytes) \<rparr>"

text \<open>The same library on a machine where \<open>fury\<close> is not installed.\<close>

definition demo_no_fury :: "nat dipy" where
  "demo_no_fury = demo_fury\<lparr>has_fury := False\<rparr>"


text \<open>The traces of the runs with these libraries.\<close>

definition demo_white_matter :: "bool ndarray" where
  "demo_white_matter = \<lparr>shape = [2, 2, 1], flat = [False, True, True, True]\<rparr>"

definition demo_seed_mask :: "bool ndarray" where
  "demo_seed_mask = \<lparr>shape = [2, 2, 1], flat = [False, False, True, True]\<rparr>"

definition trace_to_peaks :: "(nat event \<times> nat outcome) list" where
  "trace_to_peaks =
     [(E_get_fnames ''stanford_hardi'', Returned [1]),
      (E_unpack 3 1, Returned [3, 4, 5]),
      (E_load_nifti 3 True, Returned [6]),
      (E_unpack 3 6, Returned [7, 8, 9]),
      (E_read_bvals_bvecs 4 5, Returned [10]),
      (E_unpack 2 10, Returned [11, 12]),
      (E_gradient_table 11 12, Returned [13]),
      (E_median_otsu 7 [0, 1, 2, 3, 4, 5, 6, 7, 8] 1 5, Returned [14]),
      (E_unpack 2 14, Returned [15, 16]),
      (E_get_fnames ''stanford_labels'', Returned [2]),
      (E_load_nifti_data 2, Returned []),
      (E_TensorModel 13, Returned [17]),
      (E_peaks_from_model 17 15 18 0.8 45 demo_white_matter, Returned [19])]"

definition trace_show_peaks :: "(nat event \<times> nat outcome) list" where
  "trace_show_peaks =
     [(E_import ''dipy.viz'' [''window'', ''actor'', ''has_fury''], Returned []),
      (E_window_Scene, Returned [20]),
      (E_getattr 19 ''peak_dirs'', Returned [21]),
      (E_getattr 19 ''peak_values'', Returned [22]),
      (E_actor_peak_slicer 21 22 None, Returned [23]),
      (E_scene_add 20 23, Returned [24]),
      (E_window_record 24 ''dti_direction_field.png'' (900, 900), Returned []),
      (E_window_show 24 (Some (800, 800)), Returned [])]"

definition trace_tracking :: "(nat event \<times> nat outcome) list" where
  "trace_tracking =
     [(E_seeds_from_mask demo_seed_mask 8 [3, 3, 3], Returned [26]),
      (E_fit 17 15, Returned [27]),
      (E_getattr 27 ''fa'', Returned [28]),
      (E_ThresholdStoppingCriterion 28 0.2, Returned [29]),
      (E_LocalTracking 19 29 26 8 0.5, Returned [30]),
      (E_Streamlines 30, Returned [31])]"

definition trace_show_streamlines :: "(nat event \<times> nat outcome) list" where
  "trace_show_streamlines =
     [(E_import ''dipy.viz'' [''colormap''], Returned []),
      (E_colormap_line_colors 31, Returned [32]),
      (E_colormap_line_colors 31, Returned [32]),
      (E_actor_line 31 32, Returned [33]),
      (E_window_Scene, Returned [20]),
      (E_scene_add 20 33, Returned [24]),
      (E_window_record 24 ''dti_tractogram.png'' (800, 800), Returned []),
      (E_window_show 24 None, Returned [])]"

definition trace_save :: "(nat event \<times> nat outcome) list" where
  "trace_save =
     [(E_StatefulTractogram 31 9 RASMM, Returned [34]),
      (E_save_trk 34 trk_name 31, Returned []),
      (E_shell ''dir'', Returned []),
      (E_shell ''dipy_horizon dti_CC*trk'', Returned []),
      (E_shell ''dipy_horizon dti_CC*trk tensor_fa.nii.gz'', Returned []),
      (E_shell ''dipy_horizon dti_CC*trk tensor_md.nii.gz'', Returned []),
      (E_shell ''dipy_horizon dti_CC*trk tensor_ad.nii.gz'', Returned []),
      (E_shell ''dipy_horizon dti_CC*trk tensor_rd.nii.gz'', Returned [])]"

definition demo_fury_trace :: "(nat event \<times> nat outcome) list" where
  "demo_fury_trace =
     trace_to_peaks @ trace_show_peaks @ trace_tracking @ trace_show_streamlines @ trace_save"

definition demo_fury_world :: "nat world" where
  "demo_fury_world =
     \<lparr>trace = demo_fury_trace,
      written = [(''dti_direction_field.png'', png_bytes), (''dti_tractogram.png'', png_bytes),
                 (trk_name, trk_bytes)]\<rparr>"

text \<open>
  Without \<open>fury\<close> the run gets as far as the peaks; then the import of \<open>window\<close> and
  \<open>actor\<close> raises, and no file has been written.
\<close>

definition demo_no_fury_trace :: "(nat event \<times> nat outcome) list" where
  "demo_no_fury_trace =
     trace_to_peaks
     @ [(E_import ''dipy.viz'' [''window'', ''actor'', ''has_fury''], Raised (Exn ''ImportError''))]"

definition demo_no_fury_world :: "nat world" where
  "demo_no_fury_world = \<lparr>trace = demo_no_fury_trace, written = []\<rparr>"

section \<open>Reasoning about runs\<close>

text \<open>
  \<open>sem m \<Phi>\<close>: whenever the statements \<open>m\<close> are run, they only append to the trace and to
  the files written, and \<open>\<Phi>\<close> holds of the result, of the events appended and of the files
  appended.
\<close>

definition sem ::
  "('o, 'a) nb \<Rightarrow> (exn + 'a \<Rightarrow> ('o event \<times> 'o outcome) list \<Rightarrow> (string \<times> bytes) list \<Rightarrow> bool) \<Rightarrow> bool"
  where
  "sem m \<Phi> \<longleftrightarrow>
     (\<forall>w r w'. m w = (r, w') \<longrightarrow>
        (\<exists>es fs. trace w' = trace w @ es \<and> written w' = written w @ fs \<and> \<Phi> r es fs))"

section \<open>Proofs\<close>

subsection \<open>Stepping through the statements\<close>

lemmas do_defs = do_get_fnames_def do_unpack2_def do_unpack3_def do_load_nifti_def
  do_read_bvals_bvecs_def do_gradient_table_def do_median_otsu_def do_load_nifti_data_def
  do_TensorModel_def do_peaks_from_model_def do_window_Scene_def do_getattr_def
  do_actor_peak_slicer_def do_scene_add_def do_window_record_def do_window_show_def
  do_seeds_from_mask_def do_fit_def do_ThresholdStoppingCriterion_def do_LocalTracking_def
  do_Streamlines_def do_colormap_line_colors_def do_actor_line_def do_StatefulTractogram_def
  do_save_trk_def shell_def

lemmas cell_defs = cell_load_def cell_mask_def cell_labels_def cell_model_def cell_peaks_def
  cell_show_peaks_def cell_seeds_def cell_fa_def cell_stopping_def cell_tracking_def
  cell_streamlines_def cell_show_streamlines_def cell_save_def cells_shell_def

lemmas nb_defs = nb_bind_def nb_return_def call_def call_writing_def outcome_of_def
  obj0_def obj1_def

lemmas expected_defs = expected_calls_def load_calls_def mask_calls_def label_calls_def
  direction_calls_def show_peaks_calls_def seed_calls_def stopping_calls_def tracking_calls_def
  show_streamlines_calls_def save_calls_def shell_calls_def shell_cmds_def

lemma sem_return: "\<Phi> (Inr x) [] [] \<Longrightarrow> sem (nb_return x) \<Phi>"
  by (simp add: sem_def nb_return_def)

lemma sem_call:
  assumes "\<And>x. r = Inr x \<Longrightarrow> \<Phi> (Inr x) [(ev, Returned (objs x))] []"
    and "\<And>e. r = Inl e \<Longrightarrow> \<Phi> (Inl e) [(ev, Raised e)] []"
  shows "sem (call ev objs r) \<Phi>"
  using assms by (cases r) (auto simp: sem_def call_def outcome_of_def)

lemma sem_bind_call:
  assumes "\<And>x. r = Inr x \<Longrightarrow> sem (f x) (\<lambda>r' es fs. \<Phi> r' ((ev, Returned (objs x)) # es) fs)"
    and "\<And>e. r = Inl e \<Longrightarrow> \<Phi> (Inl e) [(ev, Raised e)] []"
  shows "sem (nb_bind (call ev objs r) f) \<Phi>"
proof (cases r)
  case (Inl e)
  then show ?thesis using assms(2)[OF Inl]
    by (auto simp: sem_def nb_bind_def call_def outcome_of_def)
next
  case (Inr x)
  show ?thesis
    unfolding sem_def
  proof (intro allI impI)
    fix w res w'
    assume run: "nb_bind (call ev objs r) f w = (res, w')"
    let ?w1 = "w\<lparr>trace := trace w @ [(ev, Returned (objs x))]\<rparr>"
    from run Inr have "f x ?w1 = (res, w')"
      by (simp add: nb_bind_def call_def outcome_of_def)
    with assms(1)[OF Inr] obtain es fs where
      "trace w' = trace ?w1 @ es" "written w' = written ?w1 @ fs"
      "\<Phi> res ((ev, Returned (objs x)) # es) fs"
      unfolding sem_def by blast
    then show "\<exists>es fs. trace w' = trace w @ es \<and> written w' = written w @ fs \<and> \<Phi> res es fs"
      by (intro exI[of _ "(ev, Returned (objs x)) # es"] exI[of _ fs]) simp
  qed
qed

lemma sem_bind_call_ok:
  assumes "sem (f v) (\<lambda>r' es fs. \<Phi> r' ((ev, Returned (objs v)) # es) fs)"
  shows "sem (nb_bind (call ev objs (Inr v)) f) \<Phi>"
  by (rule sem_bind_call) (use assms in auto)

lemma sem_call_ok:
  assumes "\<Phi> (Inr v) [(ev, Returned (objs v))] []"
  shows "sem (call ev objs (Inr v)) \<Phi>"
  by (rule sem_call) (use assms in auto)

lemma sem_bind_call_raise:
  assumes "\<Phi> (Inl e) [(ev, Raised e)] []"
  shows "sem (nb_bind (call ev objs (Inl e)) f) \<Phi>"
  by (rule sem_bind_call) (use assms in auto)

lemma sem_bind_writing:
  assumes "\<And>b. r = Inr b \<Longrightarrow> sem (f ()) (\<lambda>r' es fs. \<Phi> r' ((ev, Returned []) # es) ((path, b) # fs))"
    and "\<And>e. r = Inl e \<Longrightarrow> \<Phi> (Inl e) [(ev, Raised e)] []"
  shows "sem (nb_bind (call_writing ev path r) f) \<Phi>"
proof (cases r)
  case (Inl e)
  then show ?thesis using assms(2)[OF Inl]
    by (auto simp: sem_def nb_bind_def call_writing_def)
next
  case (Inr b)
  show ?thesis
    unfolding sem_def
  proof (intro allI impI)
    fix w res w'
    assume run: "nb_bind (call_writing ev path r) f w = (res, w')"
    let ?w1 = "w\<lparr>trace := trace w @ [(ev, Returned [])], written := written w @ [(path, b)]\<rparr>"
    from run Inr have "f () ?w1 = (res, w')"
      by (simp add: nb_bind_def call_writing_def)
    with assms(1)[OF Inr] obtain es fs where
      "trace w' = trace ?w1 @ es" "written w' = written ?w1 @ fs"
      "\<Phi> res ((ev, Returned []) # es) ((path, b) # fs)"
      unfolding sem_def by blast
    then show "\<exists>es fs. trace w' = trace w @ es \<and> written w' = written w @ fs \<and> \<Phi> res es fs"
      by (intro exI[of _ "(ev, Returned []) # es"] exI[of _ "(path, b) # fs"]) simp
  qed
qed

lemma sem_bind_return: "sem (f x) \<Phi> \<Longrightarrow> sem (nb_bind (nb_return x) f) \<Phi>"
  by (simp add: sem_def nb_bind_def nb_return_def)

lemma sem_bind_assoc:
  "sem (nb_bind m (\<lambda>x. nb_bind (f x) g)) \<Phi> \<Longrightarrow> sem (nb_bind (nb_bind m f) g) \<Phi>"
  by (simp add: sem_def nb_bind_def split: prod.splits sum.splits)

lemma sem_case_pair: "sem (F a b) \<Phi> \<Longrightarrow> sem (case_prod F (a, b)) \<Phi>"
  by simp

lemma sem_case_prod:
  assumes "\<And>a b. x = (a, b) \<Longrightarrow> sem (F a b) \<Phi>"
  shows "sem (case_prod F x) \<Phi>"
  using assms by (cases x) simp

lemma sem_bind_case_pair:
  "sem (nb_bind (F a b) g) \<Phi> \<Longrightarrow> sem (nb_bind (case_prod F (a, b)) g) \<Phi>"
  by simp

lemma sem_bind_case_prod:
  assumes "\<And>a b. x = (a, b) \<Longrightarrow> sem (nb_bind (F a b) g) \<Phi>"
  shows "sem (nb_bind (case_prod F x) g) \<Phi>"
  using assms by (cases x) simp

lemmas sem_intros = sem_bind_call_ok sem_call_ok sem_bind_call_raise sem_bind_call
  sem_bind_writing sem_bind_return
  sem_bind_assoc sem_bind_case_pair sem_case_pair sem_bind_case_prod sem_case_prod sem_return
  sem_call

lemma sem_run: "sem (notebook L) \<Phi> \<Longrightarrow> run L = (r, w) \<Longrightarrow> \<Phi> r (trace w) (written w)"
  unfolding sem_def run_def start_def
  apply (drule spec[of _ "\<lparr>trace = [], written = []\<rparr>"])
  apply (drule spec[of _ r], drule spec[of _ w])
  apply auto
  done

lemma show_peaks_fury: "has_fury L \<Longrightarrow> cell_show_peaks L p =
        nb_bind (call (E_import ''dipy.viz'' [''window'', ''actor'', ''has_fury'']) obj0 (Inr ())) (\<lambda>_.
        nb_bind (do_window_Scene L) (\<lambda>scene.
        nb_bind (do_getattr L p ''peak_dirs'') (\<lambda>peak_dirs.
        nb_bind (do_getattr L p ''peak_values'') (\<lambda>peak_values.
        nb_bind (do_actor_peak_slicer L peak_dirs peak_values None) (\<lambda>slicer.
        nb_bind (do_scene_add L scene slicer) (\<lambda>scene.
        nb_bind (do_window_record L scene ''dti_direction_field.png'' (900, 900)) (\<lambda>_.
        do_window_show L scene (Some (800, 800)))))))))"
  by (simp add: cell_show_peaks_def do_import_viz_def import_viz_def)

lemma show_peaks_plain: "\<not> has_fury L \<Longrightarrow> cell_show_peaks L p =
        nb_bind (call (E_import ''dipy.viz'' [''window'', ''actor'', ''has_fury'']) obj0
                   (Inl (Exn ''ImportError'')))
          nb_return"
  by (simp add: cell_show_peaks_def do_import_viz_def import_viz_def)

lemma show_streamlines_fury: "has_fury L \<Longrightarrow> cell_show_streamlines L s =
        nb_bind (call (E_import ''dipy.viz'' [''colormap'']) obj0 (Inr ())) (\<lambda>_.
        nb_bind (do_colormap_line_colors L s) (\<lambda>color.
        nb_bind (do_colormap_line_colors L s) (\<lambda>colors.
        nb_bind (do_actor_line L s colors) (\<lambda>streamlines_actor.
        nb_bind (do_window_Scene L) (\<lambda>scene.
        nb_bind (do_scene_add L scene streamlines_actor) (\<lambda>scene.
        nb_bind (do_window_record L scene ''dti_tractogram.png'' (800, 800)) (\<lambda>_.
        do_window_show L scene None)))))))"
  by (simp add: cell_show_streamlines_def do_import_viz_def import_viz_def)

lemmas plain_cell_defs = cell_load_def cell_mask_def cell_labels_def cell_model_def cell_peaks_def
  cell_seeds_def cell_fa_def cell_stopping_def cell_tracking_def
  cell_streamlines_def cell_save_def cells_shell_def

lemma py_range_0_9: "py_range 0 9 = [0, 1, 2, 3, 4, 5, 6, 7, 8]"
  by (simp add: py_range_def upto_rec1)

subsection \<open>What holds of every run\<close>

lemma sem_in_order: "sem (notebook L) in_order"
proof (cases "has_fury L")
  case True
  show ?thesis
    unfolding notebook_def plain_cell_defs show_peaks_fury[OF True]
      show_streamlines_fury[OF True] do_defs
    by (rule sem_intros
        | simp (no_asm_simp) add: in_order_def calls_def expected_defs completed_def)+
next
  case False
  show ?thesis
    unfolding notebook_def plain_cell_defs show_peaks_plain[OF False] do_defs
    by (rule sem_intros
        | simp (no_asm_simp) add: in_order_def calls_def expected_defs completed_def)+
qed

lemma sem_no_transform: "sem (notebook L) (no_transform [default_sphere L])"
proof (cases "has_fury L")
  case True
  show ?thesis
    unfolding notebook_def plain_cell_defs show_peaks_fury[OF True]
      show_streamlines_fury[OF True] do_defs
    by (rule sem_intros
        | simp (no_asm_simp) add: no_transform_def obj0_def obj1_def)+
next
  case False
  show ?thesis
    unfolding notebook_def plain_cell_defs show_peaks_plain[OF False] do_defs
    by (rule sem_intros
        | simp (no_asm_simp) add: no_transform_def obj0_def obj1_def)+
qed

lemma sem_literals: "sem (notebook L) literals"
proof (cases "has_fury L")
  case True
  show ?thesis
    unfolding notebook_def plain_cell_defs show_peaks_fury[OF True]
      show_streamlines_fury[OF True] do_defs
    by (rule sem_intros
        | simp (no_asm_simp) add: literals_def py_range_0_9 shell_cmds_def trk_name_def)+
next
  case False
  show ?thesis
    unfolding notebook_def plain_cell_defs show_peaks_plain[OF False] do_defs
    by (rule sem_intros
        | simp (no_asm_simp) add: literals_def py_range_0_9 shell_cmds_def trk_name_def)+
qed

lemma sem_unhandled: "sem (notebook L) unhandled"
proof (cases "has_fury L")
  case True
  show ?thesis
    unfolding notebook_def plain_cell_defs show_peaks_fury[OF True]
      show_streamlines_fury[OF True] do_defs
    by (rule sem_intros
        | simp (no_asm_simp) add: unhandled_def failure_def trk_name_def)+
next
  case False
  show ?thesis
    unfolding notebook_def plain_cell_defs show_peaks_plain[OF False] do_defs
    by (rule sem_intros
        | simp (no_asm_simp) add: unhandled_def failure_def trk_name_def)+
qed

lemma sem_saves_one: "sem (notebook L) (saves_one L)"
proof (cases "has_fury L")
  case True
  show ?thesis
    unfolding notebook_def plain_cell_defs show_peaks_fury[OF True]
      show_streamlines_fury[OF True] do_defs
    by (rule sem_intros
        | simp (no_asm_simp) add: saves_one_def operations_def image_names_def obj0_def obj1_def)+
next
  case False
  show ?thesis
    unfolding notebook_def plain_cell_defs show_peaks_plain[OF False] do_defs
    by (rule sem_intros
        | simp (no_asm_simp) add: saves_one_def operations_def image_names_def obj0_def obj1_def)+
qed

lemma sem_seed_mask_ok: "sem (notebook L) (seed_mask_ok L)"
proof (cases "has_fury L")
  case True
  show ?thesis
    unfolding notebook_def plain_cell_defs show_peaks_fury[OF True]
      show_streamlines_fury[OF True] do_defs
    by (rule sem_intros
        | simp (no_asm_simp) add: seed_mask_ok_def operations_def obj0_def obj1_def)+
next
  case False
  show ?thesis
    unfolding notebook_def plain_cell_defs show_peaks_plain[OF False] do_defs
    by (rule sem_intros
        | simp (no_asm_simp) add: seed_mask_ok_def operations_def obj0_def obj1_def)+
qed

lemma sem_peak_mask_ok: "sem (notebook L) (peak_mask_ok L)"
proof (cases "has_fury L")
  case True
  show ?thesis
    unfolding notebook_def plain_cell_defs show_peaks_fury[OF True]
      show_streamlines_fury[OF True] do_defs
    by (rule sem_intros
        | simp (no_asm_simp) add: peak_mask_ok_def operations_def obj0_def obj1_def)+
next
  case False
  show ?thesis
    unfolding notebook_def plain_cell_defs show_peaks_plain[OF False] do_defs
    by (rule sem_intros
        | simp (no_asm_simp) add: peak_mask_ok_def operations_def obj0_def obj1_def)+
qed

lemma sem_shells_last: "sem (notebook L) shells_last"
proof (cases "has_fury L")
  case True
  show ?thesis
    unfolding notebook_def plain_cell_defs show_peaks_fury[OF True]
      show_streamlines_fury[OF True] do_defs
    by (rule sem_intros
        | simp (no_asm_simp) add: shells_last_def from_shell_def before_shell_def completed_def shell_cmds_def obj0_def)+
next
  case False
  show ?thesis
    unfolding notebook_def plain_cell_defs show_peaks_plain[OF False] do_defs
    by (rule sem_intros
        | simp (no_asm_simp) add: shells_last_def from_shell_def before_shell_def completed_def shell_cmds_def obj0_def)+
qed

subsection \<open>Without \<open>fury\<close>\<close>

lemma sem_stops_at_import:
  assumes no_fury: "\<not> has_fury L"
  shows "sem (notebook L) stops_at_import"
  unfolding notebook_def plain_cell_defs show_peaks_plain[OF no_fury] do_defs
  by (rule sem_intros
      | simp (no_asm_simp) add: stops_at_import_def completed_def operations_def
          first_viz_import_def)+

subsection \<open>Traces with exceptions\<close>

lemma propagates_raised:
  "propagates res es \<Longrightarrow> es = xs @ (ev, Raised e) # ys \<Longrightarrow> ys = [] \<and> res = Some e"
proof (induction xs arbitrary: es)
  case Nil
  then show ?case by simp
next
  case (Cons x xs)
  obtain ev' out where x: "x = (ev', out)" by (cases x)
  show ?case
  proof (cases out)
    case (Raised e')
    with Cons.prems x show ?thesis by simp
  next
    case (Returned zs)
    with Cons.prems x have "propagates res (xs @ (ev, Raised e) # ys)" by simp
    from Cons.IH[OF this refl] show ?thesis .
  qed
qed

lemma propagates_failed:
  "propagates (Some e) es \<Longrightarrow> \<exists>xs ev. es = xs @ [(ev, Raised e)]"
proof (induction es)
  case Nil
  then show ?case by simp
next
  case (Cons x es)
  obtain ev' out where x: "x = (ev', out)" by (cases x)
  show ?case
  proof (cases out)
    case (Raised e')
    with Cons.prems x have "es = []" "e' = e" by simp_all
    with x Raised have "x # es = [] @ [(ev', Raised e)]" by simp
    then show ?thesis by blast
  next
    case (Returned zs)
    with Cons.prems x have "propagates (Some e) es" by simp
    from Cons.IH[OF this] obtain xs ev where "es = xs @ [(ev, Raised e)]" by blast
    then have "x # es = (x # xs) @ [(ev, Raised e)]" by simp
    then show ?thesis by blast
  qed
qed

subsection \<open>The masks, element by element\<close>

lemma np_eq_elementwise:
  "shape (np_eq a c) = shape a \<and> length (flat (np_eq a c)) = length (flat a)
   \<and> (\<forall>i<length (flat a). flat (np_eq a c) ! i = (flat a ! i = c))"
  by (simp add: np_eq_def)

lemma white_matter_elementwise:
  "shape (np_or (np_eq a 1) (np_eq a 2)) = shape a
   \<and> length (flat (np_or (np_eq a 1) (np_eq a 2))) = length (flat a)
   \<and> (\<forall>i<length (flat a).
         flat (np_or (np_eq a 1) (np_eq a 2)) ! i = (flat a ! i = 1 \<or> flat a ! i = 2))"
  by (simp add: np_eq_def np_or_def)

lemma seed_mask_from_labels:
  assumes "run L = (r, w)" and "(E_seeds_from_mask m a density, out) \<in> set (trace w)"
  shows "density = [3, 3, 3]
       \<and> (\<exists>f labels. (E_load_nifti_data f, Returned []) \<in> set (trace w)
             \<and> load_nifti_data L f = Inr labels \<and> m = np_eq labels 2)"
proof -
  from sem_run[OF sem_seed_mask_ok assms(1)] assms(2)
  obtain f labels where d: "density = [3, 3, 3]"
    and l: "operations [''load_nifti_data''] (trace w) = [(E_load_nifti_data f, Returned [])]"
    and v: "load_nifti_data L f = Inr labels" and m: "m = np_eq labels 2"
    unfolding seed_mask_ok_def by fastforce
  have "(E_load_nifti_data f, Returned []) \<in> set (operations [''load_nifti_data''] (trace w))"
    unfolding l by simp
  then have "(E_load_nifti_data f, Returned []) \<in> set (trace w)"
    by (simp add: operations_def)
  with d v m show ?thesis by blast
qed

lemma peak_mask_from_labels:
  assumes "run L = (r, w)" and "(E_peaks_from_model md d s rpt msa msk, out) \<in> set (trace w)"
  shows "\<exists>f labels. (E_load_nifti_data f, Returned []) \<in> set (trace w)
             \<and> load_nifti_data L f = Inr labels
             \<and> msk = np_or (np_eq labels 1) (np_eq labels 2)"
proof -
  from sem_run[OF sem_peak_mask_ok assms(1)] assms(2)
  obtain f labels where
        l: "operations [''load_nifti_data''] (trace w) = [(E_load_nifti_data f, Returned [])]"
    and v: "load_nifti_data L f = Inr labels"
    and m: "msk = np_or (np_eq labels 1) (np_eq labels 2)"
    unfolding peak_mask_ok_def by fastforce
  have "(E_load_nifti_data f, Returned []) \<in> set (operations [''load_nifti_data''] (trace w))"
    unfolding l by simp
  then have "(E_load_nifti_data f, Returned []) \<in> set (trace w)"
    by (simp add: operations_def)
  with v m show ?thesis by blast
qed

subsection \<open>The runs of the example libraries\<close>

lemmas eval_defs = run_def start_def notebook_def cell_defs do_defs do_import_viz_def
  import_viz_def nb_defs unpack2_def unpack3_def py_range_0_9 np_eq_def np_or_def

lemmas trace_defs = demo_fury_trace_def demo_no_fury_trace_def trace_to_peaks_def
  trace_show_peaks_def trace_tracking_def trace_show_streamlines_def trace_save_def
  demo_labels_def demo_white_matter_def demo_seed_mask_def

lemma run_demo_fury: "run demo_fury = (Inr 31, demo_fury_world)"
  by (simp add: eval_defs demo_fury_def demo_fury_world_def trace_defs)

lemma run_demo_no_fury: "run demo_no_fury = (Inl (Exn ''ImportError''), demo_no_fury_world)"
  by (simp add: eval_defs demo_no_fury_def demo_fury_def demo_no_fury_world_def trace_defs)


section \<open>The claims\<close>

text \<open>
  \<^bold>\<open>C2.\<close> Every run performs its operations in one fixed order: it loads the sample data
  set, masks it with \<open>median_otsu\<close>, loads the labels, sets up the tensor model and
  extracts the peak directions, defines the seed points, defines the stopping criterion
  (the explicit call \<open>dti_model.fit\<close>, which yields the FA map, belongs here), calls the
  local-tracking generator and collects the streamlines, and finally saves them; only the
  shell escapes follow the save, and the two visualisation cells, each beginning with its
  import from \<open>dipy.viz\<close>, sit after the peaks and after the streamlines. The operations
  of a run are a prefix of that list, the whole list when the run completes. No operation
  is given a library object before an earlier operation has returned it (the sphere
  \<open>default_sphere\<close> is a constant of the library).
\<close>

theorem operations_in_order:
  assumes "run L = (r, w)"
  shows "prefix (calls (trace w)) expected_calls
       \<and> (completed r \<longrightarrow> calls (trace w) = expected_calls)
       \<and> flows [default_sphere L] (trace w)"
  using sem_run[OF sem_in_order assms] sem_run[OF sem_no_transform assms]
  by (simp add: in_order_def no_transform_def)

text \<open>The run with the example library, \<open>fury\<close> present, completes with all the operations.\<close>

theorem operations_in_order_witness:
  "run demo_fury = (Inr 31, demo_fury_world)
   \<and> completed (Inr 31 :: exn + nat)
   \<and> calls (trace demo_fury_world) = expected_calls
   \<and> flows [18] (trace demo_fury_world)"
  using operations_in_order[OF run_demo_fury] run_demo_fury
  by (simp add: completed_def demo_fury_def)

text \<open>
  \<^bold>\<open>C3.\<close> Whatever the library returns, so whatever the data, every operation of every
  run is given the same literal parameters: the first operation fetches the data set
  \<open>'stanford_hardi'\<close> (the labels are fetched as \<open>'stanford_labels'\<close>), peak extraction
  uses \<open>relative_peak_threshold\<close> 0.8 and \<open>min_separation_angle\<close> 45, the stopping
  criterion thresholds FA at 0.2, and the tracking step size is 0.5; so are the other
  literals of the notebook (\<open>fixed_params\<close>).
\<close>

theorem literal_parameters:
  assumes "run L = (r, w)"
  shows "trace w \<noteq> [] \<and> fst (hd (trace w)) = E_get_fnames ''stanford_hardi''
       \<and> (\<forall>x\<in>set (trace w). fixed_params (fst x))"
  using sem_run[OF sem_literals assms] by (simp add: literals_def)

text \<open>
  In the run with the example library, \<open>fury\<close> present, the three calls below are in the
  trace.
\<close>

theorem literal_parameters_witness:
  "run demo_fury = (Inr 31, demo_fury_world)
   \<and> (E_peaks_from_model 17 15 18 0.8 45 demo_white_matter, Returned [19])
        \<in> set (trace demo_fury_world)
   \<and> fixed_params (E_peaks_from_model 17 15 (18 :: nat) 0.8 45 demo_white_matter)
   \<and> (E_ThresholdStoppingCriterion 28 0.2, Returned [29]) \<in> set (trace demo_fury_world)
   \<and> fixed_params (E_ThresholdStoppingCriterion (28 :: nat) 0.2)
   \<and> (E_LocalTracking 19 29 26 8 0.5, Returned [30]) \<in> set (trace demo_fury_world)
   \<and> fixed_params (E_LocalTracking 19 29 26 (8 :: nat) 0.5)
   \<and> fst (hd (trace demo_fury_world)) = E_get_fnames ''stanford_hardi''"
  using literal_parameters[OF run_demo_fury] run_demo_fury
  by (simp add: demo_fury_world_def trace_defs)




text \<open>
  \<^bold>\<open>C5.\<close> The notebook catches nothing: in the trace of every run only the last
  operation can have raised, and then the run ended there with that very exception; a run
  that failed did so in its last operation. When the failing operation is not \<open>save_trk\<close>
  itself, so when an earlier step failed, the file
  \<open>dti_CC_tractography_deterministic.trk\<close> has not been written.
\<close>

theorem errors_propagate:
  assumes "run L = (r, w)"
  shows "(\<forall>es ev e es'. trace w = es @ (ev, Raised e) # es' \<longrightarrow> es' = [] \<and> r = Inl e)
       \<and> (\<forall>e. r = Inl e \<longrightarrow>
             (\<exists>es ev. trace w = es @ [(ev, Raised e)])
           \<and> (call_name (fst (last (trace w))) \<noteq> ''save_trk''
                \<longrightarrow> trk_name \<notin> fst ` set (written w)))"
proof -
  from sem_run[OF sem_unhandled assms]
  have p: "propagates (failure r) (trace w)"
    and f: "\<And>e. r = Inl e \<Longrightarrow> call_name (fst (last (trace w))) \<noteq> ''save_trk''
              \<Longrightarrow> trk_name \<notin> fst ` set (written w)"
    unfolding unhandled_def by blast+
  have a: "es' = [] \<and> r = Inl e" if "trace w = es @ (ev, Raised e) # es'" for es ev e es'
  proof -
    from propagates_raised[OF p that] have "es' = []" "failure r = Some e" by simp_all
    then show ?thesis by (cases r) (simp_all add: failure_def)
  qed
  have b: "\<exists>es ev. trace w = es @ [(ev, Raised e)]" if "r = Inl e" for e
    using p that propagates_failed[of e "trace w"] by (simp add: failure_def)
  from a b f show ?thesis by blast
qed

text \<open>
  Without \<open>fury\<close> the import of \<open>window\<close> and \<open>actor\<close> raises \<open>ImportError\<close> after the
  thirteen operations up to the peaks have returned: the run ends there with that
  exception, and no file has been written.
\<close>

theorem errors_propagate_witness:
  "run demo_no_fury = (Inl (Exn ''ImportError''), demo_no_fury_world)
   \<and> trace demo_no_fury_world
       = trace_to_peaks
         @ (E_import ''dipy.viz'' [''window'', ''actor'', ''has_fury''], Raised (Exn ''ImportError''))
           # []
   \<and> call_name (fst (last (trace demo_no_fury_world))) \<noteq> ''save_trk''
   \<and> trk_name \<notin> fst ` set (written demo_no_fury_world)"
  using errors_propagate[OF run_demo_no_fury] run_demo_no_fury
  by (simp add: demo_no_fury_world_def demo_no_fury_trace_def)

text \<open>
  \<^bold>\<open>C6.\<close> A run that completes, with the streamlines \<open>s\<close>, has made exactly one call of
  \<open>StatefulTractogram\<close>, wrapping \<open>s\<close> in the space \<open>RASMM\<close>, and exactly one call of
  \<open>save_trk\<close>, saving that tractogram as \<open>dti_CC_tractography_deterministic.trk\<close>; \<open>s\<close>
  is what the one call of \<open>Streamlines\<close> returned. The files written are the two images
  of the visualisation cells and then that one tractography file, holding what
  \<open>save_trk\<close> produced.
\<close>

theorem one_tractography_file:
  assumes "run L = (Inr s, w)"
  shows "(\<exists>img sft content.
            operations [''StatefulTractogram'', ''save_trk''] (trace w)
              = [(E_StatefulTractogram s img RASMM, Returned [sft]),
                 (E_save_trk sft trk_name s, Returned [])]
          \<and> save_trk L sft trk_name s = Inr content
          \<and> map fst (written w) = image_names @ [trk_name]
          \<and> last (written w) = (trk_name, content))
       \<and> (\<exists>gen. operations [''Streamlines''] (trace w) = [(E_Streamlines gen, Returned [s])])"
  using sem_run[OF sem_saves_one assms] by (simp add: saves_one_def)

text \<open>
  The run with the example library, \<open>fury\<close> present, writes the two images and then the
  tractography file.
\<close>

theorem one_tractography_file_witness:
  "run demo_fury = (Inr 31, demo_fury_world)
   \<and> map fst (written demo_fury_world)
       = [''dti_direction_field.png'', ''dti_tractogram.png'', trk_name]
   \<and> last (written demo_fury_world) = (trk_name, trk_bytes)
   \<and> save_trk demo_fury 34 trk_name 31 = Inr trk_bytes
   \<and> (E_StatefulTractogram 31 9 RASMM, Returned [34]) \<in> set (trace demo_fury_world)
   \<and> (E_save_trk 34 trk_name 31, Returned []) \<in> set (trace demo_fury_world)"
  using one_tractography_file[OF run_demo_fury] run_demo_fury
  by (simp add: demo_fury_world_def trace_defs demo_fury_def)

text \<open>
  \<^bold>\<open>C7\<close>, as stated, fails: the notebook does start processes. The cells after the save
  are shell escapes, and a complete run has run all six of them, \<open>dipy_horizon\<close> among
  them.
\<close>

theorem no_processes_counterexample:
  "completed (fst (run demo_fury))
   \<and> (E_shell ''dipy_horizon dti_CC*trk'', Returned []) \<in> set (trace (snd (run demo_fury)))
   \<and> length (from_shell (trace (snd (run demo_fury)))) = 6"
  using run_demo_fury
  by (simp add: completed_def demo_fury_world_def trace_defs from_shell_def)

text \<open>
  \<^bold>\<open>C7\<close>, amended. The processes a run starts are the shell escapes of the last cells,
  one after the other: the trace of every run is a part without shell escapes followed by
  shell escapes only, namely the first of the six commands of the notebook, in its
  order, each run to its end before the next; a complete run has run all six; and when a
  shell escape has run at all, the operation just before the first one is \<open>save_trk\<close>,
  which returned. Every other operation is a call into the library.
\<close>

theorem shell_escapes_after_save:
  assumes "run L = (r, w)"
  shows "trace w = before_shell (trace w) @ from_shell (trace w)
       \<and> (\<forall>x\<in>set (before_shell (trace w)). \<not> is_shell (fst x))
       \<and> from_shell (trace w)
           = map (\<lambda>c. (E_shell c, Returned [])) (take (length (from_shell (trace w))) shell_cmds)
       \<and> (completed r \<longrightarrow> length (from_shell (trace w)) = length shell_cmds)
       \<and> (from_shell (trace w) \<noteq> [] \<longrightarrow>
              before_shell (trace w) \<noteq> []
            \<and> call_name (fst (last (before_shell (trace w)))) = ''save_trk''
            \<and> snd (last (before_shell (trace w))) = Returned [])"
proof -
  have "trace w = before_shell (trace w) @ from_shell (trace w)"
    by (simp add: before_shell_def from_shell_def)
  moreover have "\<forall>x\<in>set (before_shell (trace w)). \<not> is_shell (fst x)"
    by (auto simp: before_shell_def dest: set_takeWhileD)
  ultimately show ?thesis
    using sem_run[OF sem_shells_last assms] by (simp add: shells_last_def)
qed

text \<open>The run with the example library, \<open>fury\<close> present: the six commands, after the save.\<close>

theorem shell_escapes_after_save_witness:
  "run demo_fury = (Inr 31, demo_fury_world) \<and> completed (Inr 31 :: exn + nat)
   \<and> map fst (from_shell (trace demo_fury_world)) = map E_shell shell_cmds
   \<and> last (before_shell (trace demo_fury_world)) = (E_save_trk 34 trk_name 31, Returned [])"
  using shell_escapes_after_save[OF run_demo_fury] run_demo_fury
  by (simp add: completed_def demo_fury_world_def trace_defs from_shell_def before_shell_def
      shell_cmds_def)

text \<open>
  \<^bold>\<open>C8.\<close> Whenever a run calls \<open>seeds_from_mask\<close>, the density it passes is
  \<open>[3, 3, 3]\<close>, 27 seeds for a voxel and not the 2 x 2 x 2 of the notebook's prose, and the
  mask it passes has the shape of the label volume the run loaded and is true exactly at
  the voxels whose label is 2. Placing the seeds in the voxels of the mask is the
  library's part.
\<close>

theorem seeds_in_label_2:
  assumes "run L = (r, w)" and "(E_seeds_from_mask m a density, out) \<in> set (trace w)"
  shows "density = [3, 3, 3] \<and> prod_list density = 27 \<and> density \<noteq> [2, 2, 2]
       \<and> (\<exists>f labels. (E_load_nifti_data f, Returned []) \<in> set (trace w)
             \<and> load_nifti_data L f = Inr labels
             \<and> shape m = shape labels \<and> length (flat m) = length (flat labels)
             \<and> (\<forall>i<length (flat labels). flat m ! i = (flat labels ! i = 2)))"
proof -
  from seed_mask_from_labels[OF assms] obtain f labels where
    "density = [3, 3, 3]" "(E_load_nifti_data f, Returned []) \<in> set (trace w)"
    "load_nifti_data L f = Inr labels" "m = np_eq labels 2"
    by blast
  with np_eq_elementwise[of labels 2] show ?thesis by auto
qed

text \<open>
  In the run with the example library, \<open>fury\<close> present: with the labels 0, 1, 2, 2 the
  seed mask is false, false, true, true.
\<close>

theorem seeds_in_label_2_witness:
  "run demo_fury = (Inr 31, demo_fury_world)
   \<and> (E_seeds_from_mask demo_seed_mask 8 [3, 3, 3], Returned [26]) \<in> set (trace demo_fury_world)
   \<and> load_nifti_data demo_fury 2 = Inr demo_labels
   \<and> flat demo_labels = [0, 1, 2, 2]
   \<and> flat demo_seed_mask = [False, False, True, True]
   \<and> prod_list [3, 3, 3 :: int] = 27"
  using seeds_in_label_2[OF run_demo_fury, of demo_seed_mask 8 "[3, 3, 3]" "Returned [26]"]
    run_demo_fury
  by (simp add: demo_fury_world_def trace_defs demo_fury_def)

text \<open>
  \<^bold>\<open>C9.\<close> Whenever a run calls \<open>peaks_from_model\<close>, the mask it passes has the shape of
  the label volume the run loaded and is true exactly at the voxels whose label is 1 or 2.
  Leaving the voxels outside the mask alone is the library's part.
\<close>

theorem peaks_in_white_matter:
  assumes "run L = (r, w)" and "(E_peaks_from_model md d s rpt msa msk, out) \<in> set (trace w)"
  shows "\<exists>f labels. (E_load_nifti_data f, Returned []) \<in> set (trace w)
             \<and> load_nifti_data L f = Inr labels
             \<and> shape msk = shape labels \<and> length (flat msk) = length (flat labels)
             \<and> (\<forall>i<length (flat labels).
                   flat msk ! i = (flat labels ! i = 1 \<or> flat labels ! i = 2))"
proof -
  from peak_mask_from_labels[OF assms] obtain f labels where
    "(E_load_nifti_data f, Returned []) \<in> set (trace w)"
    "load_nifti_data L f = Inr labels" "msk = np_or (np_eq labels 1) (np_eq labels 2)"
    by blast
  with white_matter_elementwise[of labels] show ?thesis by auto
qed

text \<open>
  In the run with the example library, \<open>fury\<close> present: with the labels 0, 1, 2, 2 the
  white-matter mask is false, true, true, true.
\<close>

theorem peaks_in_white_matter_witness:
  "run demo_fury = (Inr 31, demo_fury_world)
   \<and> (E_peaks_from_model 17 15 18 0.8 45 demo_white_matter, Returned [19])
        \<in> set (trace demo_fury_world)
   \<and> load_nifti_data demo_fury 2 = Inr demo_labels
   \<and> flat demo_labels = [0, 1, 2, 2]
   \<and> flat demo_white_matter = [False, True, True, True]"
  using peaks_in_white_matter[OF run_demo_fury, of 17 15 18 "0.8" 45 demo_white_matter
      "Returned [19]"]
    run_demo_fury
  by (simp add: demo_fury_world_def trace_defs demo_fury_def)

text \<open>
  \<^bold>\<open>C10.\<close> The notebook guards its visualisation calls with \<open>if has_fury:\<close>, but the
  statement before the first guard imports \<open>window\<close> and \<open>actor\<close> from \<open>dipy.viz\<close>, and
  these are there only with \<open>fury\<close>. So the availability of \<open>fury\<close> does reach the
  tractography result: a run without \<open>fury\<close> never completes. It writes no file, it
  gets to no seeds, no tracking, no streamlines and no save; it performs at most 14
  operations, and when it performs 14, the last is that import, raising \<open>ImportError\<close>.
\<close>

theorem no_tractography_without_fury:
  assumes "run L = (r, w)" and "\<not> has_fury L"
  shows "\<not> completed r \<and> written w = []
       \<and> operations [''seeds_from_mask'', ''LocalTracking'', ''Streamlines'', ''save_trk'']
           (trace w) = []
       \<and> length (trace w) \<le> 14
       \<and> (length (trace w) = 14 \<longrightarrow>
             r = Inl (Exn ''ImportError'')
           \<and> last (trace w) = (first_viz_import, Raised (Exn ''ImportError'')))"
  using sem_run[OF sem_stops_at_import[OF assms(2)] assms(1)]
  by (simp add: stops_at_import_def)

text \<open>
  The two runs of the example library, which differ in \<open>has_fury\<close> only: with \<open>fury\<close>
  the run completes with the streamlines and writes the tractography file; without, it
  ends in the import after 14 operations and has written nothing.
\<close>

theorem no_tractography_without_fury_witness:
  "demo_no_fury = demo_fury\<lparr>has_fury := False\<rparr>
   \<and> has_fury demo_fury
   \<and> run demo_fury = (Inr 31, demo_fury_world)
   \<and> (trk_name, trk_bytes) \<in> set (written demo_fury_world)
   \<and> \<not> has_fury demo_no_fury
   \<and> run demo_no_fury = (Inl (Exn ''ImportError''), demo_no_fury_world)
   \<and> length (trace demo_no_fury_world) = 14
   \<and> last (trace demo_no_fury_world)
       = (E_import ''dipy.viz'' [''window'', ''actor'', ''has_fury''], Raised (Exn ''ImportError''))
   \<and> written demo_no_fury_world = []"
  using no_tractography_without_fury[OF run_demo_no_fury] run_demo_no_fury run_demo_fury
  by (simp add: demo_no_fury_def demo_fury_def demo_fury_world_def demo_no_fury_world_def
      trace_defs first_viz_import_def)

end
